theory Spec2Isabelle
  imports Complex_Main
begin

unbundle bit_operations_syntax

section \<open>JavaScript numbers\<close>

text \<open>
  The library computes on JavaScript numbers. A number is modelled as a finite real,
  one of the two infinities, or NaN. Arithmetic on finite numbers is exact: the rounding
  of IEEE-754 doubles, overflow of finite results to an infinity and the sign of zero
  are not modelled. A store into a \<open>Float32Array\<close> rounds to single precision, which
  \<open>fround\<close> below models. The special values follow IEEE-754:
  NaN is absorbing, every comparison with NaN is false, \<open>0/0\<close>, \<open>\<infinity> - \<infinity>\<close> and
  \<open>0 \<cdot> \<infinity>\<close> are NaN, and a non-zero finite number divided by zero is an infinity.
\<close>

datatype jsnum = Num real | PosInf | NegInf | NaN

fun jadd :: "jsnum \<Rightarrow> jsnum \<Rightarrow> jsnum" where
  "jadd NaN _ = NaN"
| "jadd _ NaN = NaN"
| "jadd (Num a) (Num b) = Num (a + b)"
| "jadd PosInf NegInf = NaN"
| "jadd NegInf PosInf = NaN"
| "jadd PosInf _ = PosInf"
| "jadd NegInf _ = NegInf"
| "jadd _ PosInf = PosInf"
| "jadd _ NegInf = NegInf"

fun jneg :: "jsnum \<Rightarrow> jsnum" where
  "jneg (Num a) = Num (- a)"
| "jneg PosInf = NegInf"
| "jneg NegInf = PosInf"
| "jneg NaN = NaN"

definition jsub :: "jsnum \<Rightarrow> jsnum \<Rightarrow> jsnum" where
  "jsub a b = jadd a (jneg b)"

fun jmul :: "jsnum \<Rightarrow> jsnum \<Rightarrow> jsnum" where
  "jmul NaN _ = NaN"
| "jmul _ NaN = NaN"
| "jmul (Num a) (Num b) = Num (a * b)"
| "jmul (Num a) PosInf = (if a = 0 then NaN else if 0 < a then PosInf else NegInf)"
| "jmul (Num a) NegInf = (if a = 0 then NaN else if 0 < a then NegInf else PosInf)"
| "jmul PosInf (Num b) = (if b = 0 then NaN else if 0 < b then PosInf else NegInf)"
| "jmul NegInf (Num b) = (if b = 0 then NaN else if 0 < b then NegInf else PosInf)"
| "jmul PosInf PosInf = PosInf"
| "jmul PosInf NegInf = NegInf"
| "jmul NegInf PosInf = NegInf"
| "jmul NegInf NegInf = PosInf"

fun jdiv :: "jsnum \<Rightarrow> jsnum \<Rightarrow> jsnum" where
  "jdiv NaN _ = NaN"
| "jdiv _ NaN = NaN"
| "jdiv (Num a) (Num b) =
     (if b = 0 then (if a = 0 then NaN else if 0 < a then PosInf else NegInf)
      else Num (a / b))"
| "jdiv (Num a) PosInf = Num 0"
| "jdiv (Num a) NegInf = Num 0"
| "jdiv PosInf (Num b) = (if 0 \<le> b then PosInf else NegInf)"
| "jdiv NegInf (Num b) = (if 0 \<le> b then NegInf else PosInf)"
| "jdiv _ _ = NaN"

text \<open>The comparison operators \<open><\<close>, \<open><=\<close>, \<open>>\<close>, \<open>>=\<close> and \<open>===\<close>.\<close>

fun jlt :: "jsnum \<Rightarrow> jsnum \<Rightarrow> bool" where
  "jlt NaN _ = False"
| "jlt _ NaN = False"
| "jlt (Num a) (Num b) = (a < b)"
| "jlt PosInf _ = False"
| "jlt _ NegInf = False"
| "jlt NegInf _ = True"
| "jlt _ PosInf = True"

fun jle :: "jsnum \<Rightarrow> jsnum \<Rightarrow> bool" where
  "jle NaN _ = False"
| "jle _ NaN = False"
| "jle (Num a) (Num b) = (a \<le> b)"
| "jle NegInf _ = True"
| "jle _ PosInf = True"
| "jle PosInf _ = False"
| "jle _ NegInf = False"

definition jgt :: "jsnum \<Rightarrow> jsnum \<Rightarrow> bool" where
  "jgt a b = jlt b a"

definition jge :: "jsnum \<Rightarrow> jsnum \<Rightarrow> bool" where
  "jge a b = jle b a"

fun jeq :: "jsnum \<Rightarrow> jsnum \<Rightarrow> bool" where
  "jeq NaN _ = False"
| "jeq _ NaN = False"
| "jeq a b = (a = b)"

text \<open>Truthiness, as tested by \<open>||\<close>: zero and NaN are falsy.\<close>

fun truthy :: "jsnum \<Rightarrow> bool" where
  "truthy (Num a) = (a \<noteq> 0)"
| "truthy NaN = False"
| "truthy _ = True"

text \<open>\<open>Math.min\<close>, \<open>Math.max\<close>, \<open>Math.sqrt\<close>, \<open>Math.log10\<close>, \<open>Math.floor\<close>, \<open>Math.ceil\<close>
  and \<open>Math.round\<close> (which rounds a half towards \<open>+\<infinity>\<close>).\<close>

fun Math_min :: "jsnum \<Rightarrow> jsnum \<Rightarrow> jsnum" where
  "Math_min NaN _ = NaN"
| "Math_min _ NaN = NaN"
| "Math_min a b = (if jle a b then a else b)"

fun Math_max :: "jsnum \<Rightarrow> jsnum \<Rightarrow> jsnum" where
  "Math_max NaN _ = NaN"
| "Math_max _ NaN = NaN"
| "Math_max a b = (if jle a b then b else a)"

fun Math_sqrt :: "jsnum \<Rightarrow> jsnum" where
  "Math_sqrt (Num a) = (if a < 0 then NaN else Num (sqrt a))"
| "Math_sqrt PosInf = PosInf"
| "Math_sqrt _ = NaN"

fun Math_log10 :: "jsnum \<Rightarrow> jsnum" where
  "Math_log10 (Num a) = (if a < 0 then NaN else if a = 0 then NegInf else Num (log 10 a))"
| "Math_log10 PosInf = PosInf"
| "Math_log10 _ = NaN"

fun Math_floor :: "jsnum \<Rightarrow> jsnum" where
  "Math_floor (Num a) = Num (of_int \<lfloor>a\<rfloor>)"
| "Math_floor x = x"

fun Math_ceil :: "jsnum \<Rightarrow> jsnum" where
  "Math_ceil (Num a) = Num (of_int \<lceil>a\<rceil>)"
| "Math_ceil x = x"

fun Math_round :: "jsnum \<Rightarrow> jsnum" where
  "Math_round (Num a) = Num (of_int \<lfloor>a + 1 / 2\<rfloor>)"
| "Math_round x = x"

text \<open>
  The conversion applied by every store into a \<open>Float32Array\<close> (the function
  \<open>Math.fround\<close>): the nearest single-precision number, with a significand of 24 bits,
  exponents from \<open>-126\<close> to \<open>127\<close>, subnormals below, ties to the even significand and
  overflow to an infinity. \<open>round_half_even\<close> rounds the significand.
\<close>

definition round_half_even :: "real \<Rightarrow> int" where
  "round_half_even q =
     (let f = \<lfloor>q\<rfloor>; d = q - of_int f
      in if d < 1 / 2 then f else if 1 / 2 < d then f + 1 else if even f then f else f + 1)"

fun fround :: "jsnum \<Rightarrow> jsnum" where
  "fround (Num x) =
     (if x = 0 then Num 0
      else
        (let e = max \<lfloor>log 2 \<bar>x\<bar>\<rfloor> (- 126);
             ulp = 2 powr (of_int (e - 23));
             r = of_int (round_half_even (x / ulp)) * ulp
         in if 2 ^ 128 \<le> \<bar>r\<bar> then (if 0 < x then PosInf else NegInf) else Num r))"
| "fround v = v"

definition epsilon :: jsnum where
  "epsilon = Num (1 / 10 ^ 10)"

section \<open>helpers.js\<close>

definition getQualityStatus :: "jsnum \<Rightarrow> string" where
  "getQualityStatus snr =
     (if jge snr (Num 10) then ''Excellent''
      else if jge snr (Num 5) then ''Good''
      else if jge snr (Num 0) then ''Fair''
      else ''Poor'')"

definition generateGuidance :: "jsnum \<Rightarrow> jsnum \<Rightarrow> jsnum \<Rightarrow> string" where
  "generateGuidance snr pi' stability =
     (if jlt snr (Num 0) then
        (if jlt pi' (Num (3 / 10)) then ''Cover camera completely with finger''
         else ''Adjust finger placement'')
      else if jge snr (Num 0) \<and> jlt snr (Num 5) then
        (if jlt pi' (Num 1) then ''Press finger more firmly''
         else if jgt pi' (Num 15) then ''Reduce finger pressure slightly''
         else if jlt stability (Num (1 / 2)) then ''Hold finger still''
         else ''Adjusting... hold steady'')
      else if jge snr (Num 5) \<and> jlt snr (Num 10) then ''Good signal - hold steady''
      else ''Excellent signal!'')"


text \<open>\<open>xs[i]\<close> read as a number: an index out of range yields \<open>undefined\<close>, which
  every arithmetic operation turns into NaN.\<close>

definition elem :: "jsnum list \<Rightarrow> nat \<Rightarrow> jsnum" where
  "elem xs i = (if i < length xs then xs ! i else NaN)"

text \<open>The accumulation loop \<open>for (i = 0; i < n; i++) sum += array[i]\<close>.\<close>

definition jsum :: "jsnum list \<Rightarrow> jsnum" where
  "jsum xs = foldl jadd (Num 0) xs"

definition windowMean :: "jsnum list \<Rightarrow> jsnum" where
  "windowMean array =
     (let n = length array;
          sum = foldl (\<lambda>sum i. jadd sum (array ! i)) (Num 0) [0..<n]
      in jdiv sum (Num (real n)))"

section \<open>detrend.js\<close>

text \<open>One pass of the regression loop: the accumulators are \<open>(sx, sy, sxy, sxx)\<close> and
  \<open>x[i] = i\<close>.\<close>

definition detrend_step ::
  "jsnum list \<Rightarrow> jsnum \<times> jsnum \<times> jsnum \<times> jsnum \<Rightarrow> nat \<Rightarrow> jsnum \<times> jsnum \<times> jsnum \<times> jsnum" where
  "detrend_step y acc i =
     (case acc of (sx, sy, sxy, sxx) \<Rightarrow>
        (jadd sx (Num (real i)),
         jadd sy (y ! i),
         jadd sxy (jmul (Num (real i)) (y ! i)),
         jadd sxx (jmul (Num (real i)) (Num (real i)))))"

definition detrend :: "jsnum list \<Rightarrow> jsnum list" where
  "detrend y =
     (let n = length y in
      case foldl (detrend_step y) (Num 0, Num 0, Num 0, Num 0) [0..<n] of
        (sx, sy, sxy, sxx) \<Rightarrow>
          (let mx = jdiv sx (Num (real n));
               my = jdiv sy (Num (real n));
               xx = jsub (jmul (Num (real n)) sxx) (jmul sx sx);
               xy = jsub (jmul (Num (real n)) sxy) (jmul sx sy);
               slope = jdiv xy xx;
               intercept = jsub my (jmul slope mx)
           in map (\<lambda>i. jsub (y ! i) (jadd intercept (jmul slope (Num (real i))))) [0..<n]))"

section \<open>fft.js\<close>

datatype error = FFTSizeError

text \<open>
  Modelled from the spec: the size check of the external \<open>fft.js\<close> package, which is
  not part of the sources. The spec requires a power of two that is at least 2; the
  package's constructor \<open>new FFT(size)\<close> raises unless \<open>size > 1\<close> and
  \<open>size & (size - 1)\<close> is zero.
\<close>

definition fft_size_ok :: "nat \<Rightarrow> bool" where
  "fft_size_ok sz \<longleftrightarrow> 1 < sz \<and> sz AND (sz - 1) = 0"

text \<open>
  Modelled from the spec: the real part of the package's \<open>transform\<close>, which the spec
  describes as a complex discrete Fourier transform. For the real input \<open>x\<close> of length
  \<open>N\<close>, bin \<open>k\<close> is the sum of \<open>x\<^sub>j \<cdot> exp (- 2\<pi>i \<cdot> jk / N)\<close>, whose real part is the
  sum of \<open>x\<^sub>j \<cdot> cos (2\<pi> \<cdot> jk / N)\<close>.
\<close>

definition dft_re :: "jsnum list \<Rightarrow> nat \<Rightarrow> jsnum" where
  "dft_re x k =
     jsum (map (\<lambda>j. jmul (x ! j) (Num (cos (2 * pi * real (j * k) / real (length x)))))
             [0..<length x])"

text \<open>
  Modelled from the spec: the imaginary part of the same transform, the sum of
  \<open>- x\<^sub>j \<cdot> sin (2\<pi> \<cdot> jk / N)\<close>.
\<close>

definition dft_im :: "jsnum list \<Rightarrow> nat \<Rightarrow> jsnum" where
  "dft_im x k =
     jsum (map (\<lambda>j. jmul (x ! j) (Num (- sin (2 * pi * real (j * k) / real (length x)))))
             [0..<length x])"

text \<open>\<open>computeFFT\<close> pads or truncates the signal to the FFT size, transforms it and
  returns the squared magnitudes of the first half of the bins. The padded signal and
  the spectrum are \<open>Float32Array\<close>s.\<close>

record FFTResult =
  fft_psd :: "jsnum list"
  fft_fftSize :: nat
  fft_sampleRate :: jsnum
  fft_freqResolution :: jsnum

definition computeFFT :: "jsnum list \<Rightarrow> nat \<Rightarrow> jsnum \<Rightarrow> error + FFTResult" where
  "computeFFT signal fftSize sampleRate =
     (let n = length signal;
          paddedSignal = map (\<lambda>i. if i < min n fftSize then fround (signal ! i) else Num 0)
                           [0..<fftSize]
      in if \<not> fft_size_ok fftSize then Inl FFTSizeError
         else
           (let psd = map (\<lambda>i. let real' = dft_re paddedSignal i;
                                    imag = dft_im paddedSignal i
                                in fround (jadd (jmul real' real') (jmul imag imag)))
                          [0..<fftSize div 2]
            in Inr \<lparr>fft_psd = psd, fft_fftSize = fftSize, fft_sampleRate = sampleRate,
                    fft_freqResolution = jdiv sampleRate (Num (real fftSize))\<rparr>))"

record SNRResult =
  r_snr_dB :: jsnum
  r_peakIdx :: nat
  r_peakFrequency :: jsnum
  r_signalPower :: jsnum
  r_noisePower :: jsnum
  r_totalPower :: jsnum

text \<open>The body of the loop over the bins \<open>1 \<le> i < psd.length\<close>; the accumulators are
  \<open>(signalPower, totalPower, maxPower, peakIdx)\<close>.\<close>

definition snr_step ::
  "jsnum list \<Rightarrow> jsnum \<Rightarrow> jsnum \<Rightarrow> jsnum \<times> jsnum \<times> jsnum \<times> nat \<Rightarrow> nat
     \<Rightarrow> jsnum \<times> jsnum \<times> jsnum \<times> nat" where
  "snr_step psd low high acc i =
     (case acc of (signalPower, totalPower, maxPower, peakIdx) \<Rightarrow>
        (if jge (Num (real i)) low \<and> jle (Num (real i)) high then
           (if jgt (psd ! i) maxPower
            then (jadd signalPower (psd ! i), jadd totalPower (psd ! i), psd ! i, i)
            else (jadd signalPower (psd ! i), jadd totalPower (psd ! i), maxPower, peakIdx))
         else (signalPower, jadd totalPower (psd ! i), maxPower, peakIdx)))"

definition calculateSNRFromPSD :: "jsnum list \<Rightarrow> jsnum \<Rightarrow> jsnum \<Rightarrow> jsnum \<Rightarrow> SNRResult" where
  "calculateSNRFromPSD psd freqResolution cardiacBandLow cardiacBandHigh =
     (let low = Math_floor (jdiv cardiacBandLow freqResolution);
          high = Math_ceil (jdiv cardiacBandHigh freqResolution)
      in case foldl (snr_step psd low high) (Num 0, Num 0, Num 0, 0) [1..<length psd] of
           (signalPower, totalPower, maxPower, peakIdx) \<Rightarrow>
             (let noisePower = jsub totalPower signalPower;
                  snr_dB = jmul (Num 10)
                             (Math_log10 (jdiv (jadd signalPower epsilon) (jadd noisePower epsilon)));
                  peakFrequency = jmul (Num (real peakIdx)) freqResolution
              in \<lparr>r_snr_dB = snr_dB, r_peakIdx = peakIdx, r_peakFrequency = peakFrequency,
                   r_signalPower = signalPower, r_noisePower = noisePower,
                   r_totalPower = totalPower\<rparr>))"


section \<open>SignalProcessor.js\<close>

text \<open>The options object handed to a constructor; \<open>None\<close> is an absent property.
  Lengths and sizes are natural numbers.\<close>

record SignalOptions =
  opt_windowLength :: "nat option"
  opt_sampleRate :: "jsnum option"
  opt_cardiacBandLow :: "jsnum option"
  opt_cardiacBandHigh :: "jsnum option"
  opt_fftSize :: "nat option"

record SignalProcessor =
  sp_windowLength :: nat
  sp_sampleRate :: jsnum
  sp_cardiacBandLow :: jsnum
  sp_cardiacBandHigh :: jsnum
  sp_fftSize :: nat
  sp_previousVariance :: jsnum
  sp_qualityFrameCount :: nat

text \<open>\<open>options.p || d\<close>: the default replaces an absent or falsy property.\<close>

definition or_nat :: "nat option \<Rightarrow> nat \<Rightarrow> nat" where
  "or_nat v d = (case v of None \<Rightarrow> d | Some n \<Rightarrow> if n = 0 then d else n)"

definition or_num :: "jsnum option \<Rightarrow> jsnum \<Rightarrow> jsnum" where
  "or_num v d = (case v of None \<Rightarrow> d | Some x \<Rightarrow> if truthy x then x else d)"

definition SignalProcessor_new :: "SignalOptions \<Rightarrow> SignalProcessor" where
  "SignalProcessor_new options =
     \<lparr>sp_windowLength = or_nat (opt_windowLength options) 300,
      sp_sampleRate = or_num (opt_sampleRate options) (Num 60),
      sp_cardiacBandLow = or_num (opt_cardiacBandLow options) (Num (3 / 4)),
      sp_cardiacBandHigh = or_num (opt_cardiacBandHigh options) (Num 4),
      sp_fftSize = or_nat (opt_fftSize options) 256,
      sp_previousVariance = Num 0,
      sp_qualityFrameCount = 0\<rparr>"

record QualityMetrics =
  snr_dB :: jsnum
  perfusionIndex :: jsnum
  heartRate :: jsnum
  ibi :: jsnum
  signalStability :: jsnum
  qualityStatus :: string
  guidanceMessage :: string
  qualityFrameCount :: nat
  signalPower :: jsnum
  noisePower :: jsnum
  peakFrequency :: jsnum

text \<open>\<open>calculatePerfusionIndex\<close> returns \<open>(pi, variance)\<close>.\<close>

definition calculatePerfusionIndex :: "jsnum list \<Rightarrow> jsnum list \<Rightarrow> jsnum \<times> jsnum" where
  "calculatePerfusionIndex rawSignal detrendedSignal =
     (let n = length rawSignal;
          sum = foldl (\<lambda>sum i. jadd sum (rawSignal ! i)) (Num 0) [0..<n];
          dc = jdiv sum (Num (real n));
          variance0 = foldl (\<lambda>v i. jadd v (jmul (elem detrendedSignal i) (elem detrendedSignal i)))
                        (Num 0) [0..<n];
          variance = jdiv variance0 (Num (real n));
          ac = Math_sqrt variance;
          pi' = jmul (jdiv ac (jadd dc epsilon)) (Num 100)
      in (pi', variance))"

text \<open>\<open>calculateStability\<close> returns the ratio and the processor with the stored
  variance updated.\<close>

definition calculateStability :: "jsnum \<Rightarrow> SignalProcessor \<Rightarrow> jsnum \<times> SignalProcessor" where
  "calculateStability currentVariance this =
     (if jeq (sp_previousVariance this) (Num 0)
      then (Num 1, this\<lparr>sp_previousVariance := currentVariance\<rparr>)
      else
        (let varianceRatio =
               jdiv (Math_min currentVariance (sp_previousVariance this))
                    (jadd (Math_max currentVariance (sp_previousVariance this)) epsilon)
         in (varianceRatio, this\<lparr>sp_previousVariance := currentVariance\<rparr>)))"

definition process ::
  "SignalProcessor \<Rightarrow> jsnum list \<Rightarrow> jsnum list \<Rightarrow> error + (QualityMetrics \<times> SignalProcessor)" where
  "process this rawSignal detrendedSignal =
     (case computeFFT detrendedSignal (sp_fftSize this) (sp_sampleRate this) of
        Inl e \<Rightarrow> Inl e
      | Inr fftResult \<Rightarrow>
          (let snrResult = calculateSNRFromPSD (fft_psd fftResult) (fft_freqResolution fftResult)
                             (sp_cardiacBandLow this) (sp_cardiacBandHigh this);
               heartRate0 = jmul (r_peakFrequency snrResult) (Num 60);
               ibi0 = (if jgt heartRate0 (Num 0) \<and> jlt heartRate0 (Num 300)
                       then Math_round (jdiv (Num 60000) heartRate0) else Num 0);
               piResult = calculatePerfusionIndex rawSignal detrendedSignal;
               (stability, this1) = calculateStability (snd piResult) this;
               status = getQualityStatus (r_snr_dB snrResult);
               guidance = generateGuidance (r_snr_dB snrResult) (fst piResult) stability;
               this2 = (if jge (r_snr_dB snrResult) (Num 5)
                        then this1\<lparr>sp_qualityFrameCount :=
                                     sp_qualityFrameCount this1 + sp_windowLength this1\<rparr>
                        else this1)
           in Inr (\<lparr>snr_dB = r_snr_dB snrResult,
                     perfusionIndex = fst piResult,
                     heartRate = Math_round heartRate0,
                     ibi = ibi0,
                     signalStability = stability,
                     qualityStatus = status,
                     guidanceMessage = guidance,
                     qualityFrameCount = sp_qualityFrameCount this2,
                     signalPower = r_signalPower snrResult,
                     noisePower = r_noisePower snrResult,
                     peakFrequency = r_peakFrequency snrResult\<rparr>, this2)))"

definition reset :: "SignalProcessor \<Rightarrow> SignalProcessor" where
  "reset this = this\<lparr>sp_previousVariance := Num 0, sp_qualityFrameCount := 0\<rparr>"

section \<open>PPGMonitor.js\<close>

text \<open>
  The monitor's state, as far as the frame loop uses it. \<open>acdc\<close> and \<open>ac\<close> are
  \<open>Float32Array\<close>s, so that every value stored in them is rounded. \<open>signal_windowLength\<close> is
  \<open>options.signal.windowLength\<close>; \<open>currentMetrics\<close> is \<open>None\<close> while it still holds the
  constructor's placeholder (status \<open>Initializing\<close>); \<open>emitted\<close> lists the records handed
  to \<open>onQualityUpdate\<close>, oldest first; \<open>acFrame\<close> is \<open>None\<close> when the read yields
  \<open>undefined\<close>.
\<close>

record PPGMonitor =
  signal_windowLength :: nat
  signalProcessor :: SignalProcessor
  acdc :: "jsnum list"
  ac :: "jsnum list"
  frameCount :: nat
  nFrame :: nat
  isSignal :: nat
  acFrame :: "jsnum option"
  acWindow :: jsnum
  currentMetrics :: "QualityMetrics option"
  emitted :: "QualityMetrics list"

text \<open>The signal part of \<open>createDefaultOptions\<close>: a property the user gives replaces the
  default, whatever its value.\<close>

definition createDefaultOptions :: "SignalOptions \<Rightarrow> SignalOptions" where
  "createDefaultOptions userOptions =
     \<lparr>opt_windowLength = Some (case opt_windowLength userOptions of None \<Rightarrow> 300 | Some v \<Rightarrow> v),
      opt_sampleRate = Some (case opt_sampleRate userOptions of None \<Rightarrow> Num 60 | Some v \<Rightarrow> v),
      opt_cardiacBandLow =
        Some (case opt_cardiacBandLow userOptions of None \<Rightarrow> Num (3 / 4) | Some v \<Rightarrow> v),
      opt_cardiacBandHigh =
        Some (case opt_cardiacBandHigh userOptions of None \<Rightarrow> Num 4 | Some v \<Rightarrow> v),
      opt_fftSize = Some (case opt_fftSize userOptions of None \<Rightarrow> 256 | Some v \<Rightarrow> v)\<rparr>"

definition PPGMonitor_new :: "SignalOptions \<Rightarrow> PPGMonitor" where
  "PPGMonitor_new options =
     (let opts = createDefaultOptions options;
          wl = (case opt_windowLength opts of None \<Rightarrow> 300 | Some v \<Rightarrow> v)
      in \<lparr>signal_windowLength = wl,
           signalProcessor = SignalProcessor_new opts,
           acdc = replicate wl (fround (Num (1 / 2))),
           ac = replicate wl (fround (Num (1 / 2))),
           frameCount = 0,
           nFrame = 0,
           isSignal = 0,
           acFrame = Some (Num (8 / 1000)),
           acWindow = Num (8 / 1000),
           currentMetrics = None,
           emitted = []\<rparr>)"

definition DURATION :: nat where
  "DURATION = 100"

text \<open>The test \<open>Math.floor(windowNum / 100) % 2 === 0\<close> that selects the processing
  branch at a window boundary.\<close>

definition processingWindow :: "nat \<Rightarrow> bool" where
  "processingWindow windowNum \<longleftrightarrow> (windowNum div 100) mod 2 = 0"

text \<open>The processing branch: detrend, copy into a \<open>Float32Array\<close>, window mean, quality
  metrics, callback.\<close>

definition processBranch :: "PPGMonitor \<Rightarrow> error + PPGMonitor" where
  "processBranch this =
     (let detrendedArray = detrend (acdc this);
          this1 = this\<lparr>isSignal := 1, ac := map fround detrendedArray\<rparr>;
          this2 = this1\<lparr>acWindow := windowMean (ac this1)\<rparr>
      in case process (signalProcessor this2) (acdc this2) (ac this2) of
           Inl e \<Rightarrow> Inl e
         | Inr (metrics, sp) \<Rightarrow>
             Inr (this2\<lparr>signalProcessor := sp, currentMetrics := Some metrics,
                        emitted := emitted this2 @ [metrics]\<rparr>))"

text \<open>The holding branch: a new \<open>Float32Array\<close> filled with the stored window mean.\<close>

definition holdBranch :: "PPGMonitor \<Rightarrow> PPGMonitor" where
  "holdBranch this =
     this\<lparr>ac := replicate (signal_windowLength this) (fround (acWindow this)), isSignal := 0\<rparr>"

text \<open>
  One call of \<open>computeFrame\<close> on the sample \<open>xMean\<close> extracted from the video frame.
  \<open>nFrame % windowLength\<close> is NaN for a zero window length, so that neither the store
  nor the boundary test takes effect then; at a boundary \<open>nFrame / windowLength\<close> is
  an exact quotient. An exception leaves the frame loop, which is not rescheduled.
\<close>

definition computeFrame :: "jsnum \<Rightarrow> PPGMonitor \<Rightarrow> error + PPGMonitor" where
  "computeFrame xMean this =
     (if nFrame this > DURATION then
        (let wl = signal_windowLength this;
             this1 = (if wl = 0 then this
                      else this\<lparr>acdc := (acdc this)[nFrame this mod wl := fround xMean]\<rparr>);
             boundary = (if wl \<noteq> 0 \<and> nFrame this mod wl = 0 then
                           (let windowNum = nFrame this div wl
                            in if processingWindow windowNum then processBranch this1
                               else Inr (holdBranch this1))
                         else Inr this1)
         in case boundary of
              Inl e \<Rightarrow> Inl e
            | Inr this2 \<Rightarrow>
                Inr (this2\<lparr>acFrame := (if wl \<noteq> 0 \<and> nFrame this mod wl < length (ac this2)
                                         then Some (ac this2 ! (nFrame this mod wl)) else None),
                           frameCount := frameCount this2 + 1,
                           nFrame := nFrame this2 + 1\<rparr>))
      else Inr (this\<lparr>nFrame := nFrame this + 1\<rparr>))"


section \<open>Shared facts\<close>

lemma process_fails_iff:
  "(process this rawSignal detrendedSignal = Inl FFTSizeError) = (\<not> fft_size_ok (sp_fftSize this))"
  by (simp add: process_def computeFFT_def Let_def split: prod.splits)

lemma computeFFT_ok:
  "fft_size_ok fftSize \<Longrightarrow> \<exists>r. computeFFT signal fftSize sampleRate = Inr r"
  by (simp add: computeFFT_def Let_def)

lemma process_ok:
  assumes "fft_size_ok (sp_fftSize this)"
  shows "\<exists>m this'. process this rawSignal detrendedSignal = Inr (m, this')"
proof -
  obtain r where fft: "computeFFT detrendedSignal (sp_fftSize this) (sp_sampleRate this) = Inr r"
    using computeFFT_ok[OF assms] by blast
  show ?thesis
    by (simp add: process_def fft Let_def split: prod.splits)
qed

lemma process_result:
  assumes fft: "computeFFT detrendedSignal (sp_fftSize this) (sp_sampleRate this) = Inr r"
    and snr: "calculateSNRFromPSD (fft_psd r) (fft_freqResolution r)
                (sp_cardiacBandLow this) (sp_cardiacBandHigh this) = s"
  shows "\<exists>m this'. process this rawSignal detrendedSignal = Inr (m, this') \<and>
     snr_dB m = r_snr_dB s \<and>
     peakFrequency m = r_peakFrequency s \<and>
     heartRate m = Math_round (jmul (r_peakFrequency s) (Num 60)) \<and>
     ibi m = (if jgt (jmul (r_peakFrequency s) (Num 60)) (Num 0) \<and>
                 jlt (jmul (r_peakFrequency s) (Num 60)) (Num 300)
              then Math_round (jdiv (Num 60000) (jmul (r_peakFrequency s) (Num 60)))
              else Num 0) \<and>
     qualityStatus m = getQualityStatus (r_snr_dB s) \<and>
     guidanceMessage m = generateGuidance (r_snr_dB s)
        (fst (calculatePerfusionIndex rawSignal detrendedSignal))
        (fst (calculateStability (snd (calculatePerfusionIndex rawSignal detrendedSignal)) this))"
proof -
  obtain st this1 where stab:
    "calculateStability (snd (calculatePerfusionIndex rawSignal detrendedSignal)) this = (st, this1)"
    by (cases "calculateStability (snd (calculatePerfusionIndex rawSignal detrendedSignal)) this")
  show ?thesis
    by (simp add: process_def fft snr stab Let_def)
qed

text \<open>Single-precision rounding leaves small integers and one half unchanged.\<close>

lemma ulp_values:
  "(2::real) powr - 23 = 1 / 8388608"
  "(2::real) powr - 21 = 1 / 2097152"
  "(2::real) powr - 24 = 1 / 16777216"
  by (simp_all add: powr_minus_divide)

lemma round_half_even_int: "round_half_even (of_int k) = k"
  by (simp add: round_half_even_def)

lemma round_half_even_values:
  "round_half_even 8388608 = 8388608"
  "round_half_even (- 8388608) = - 8388608"
  using round_half_even_int[of 8388608] round_half_even_int[of "- 8388608"] by simp_all

lemma fround_exact:
  "fround (Num 0) = Num 0"
  "fround (Num 1) = Num 1"
  "fround (Num (- 1)) = Num (- 1)"
  "fround (Num 4) = Num 4"
  "fround (Num (1 / 2)) = Num (1 / 2)"
proof -
  have l4: "log 2 4 = 2" using log_pow_cancel[of 2 2] by simp
  have lh: "log 2 (1 / 2) = - 1" by (simp add: log_divide)
  show "fround (Num 0) = Num 0" by simp
  show "fround (Num 1) = Num 1" "fround (Num (- 1)) = Num (- 1)"
    by (simp_all add: Let_def ulp_values round_half_even_values)
  show "fround (Num 4) = Num 4"
    by (simp add: Let_def l4 ulp_values round_half_even_values)
  show "fround (Num (1 / 2)) = Num (1 / 2)"
    by (simp add: Let_def lh ulp_values round_half_even_values)
qed

text \<open>What one frame does during the warm-up and at a window boundary, in the holding
  and in the processing branch.\<close>

lemma computeFrame_warmup:
  "nFrame this \<le> DURATION \<Longrightarrow> computeFrame xMean this = Inr (this\<lparr>nFrame := nFrame this + 1\<rparr>)"
  by (simp add: computeFrame_def)

lemma computeFrame_hold:
  assumes "DURATION < nFrame this" and "signal_windowLength this \<noteq> 0"
    and "nFrame this mod signal_windowLength this = 0"
    and "\<not> processingWindow (nFrame this div signal_windowLength this)"
  shows "\<exists>this'. computeFrame xMean this = Inr this' \<and> isSignal this' = 0 \<and>
     currentMetrics this' = currentMetrics this \<and> emitted this' = emitted this \<and>
     signalProcessor this' = signalProcessor this \<and>
     ac this' = replicate (signal_windowLength this) (fround (acWindow this)) \<and>
     frameCount this' = frameCount this + 1 \<and> nFrame this' = nFrame this + 1"
  using assms by (simp add: computeFrame_def holdBranch_def Let_def)

lemma computeFrame_processing:
  assumes "DURATION < nFrame this" and "signal_windowLength this \<noteq> 0"
    and "nFrame this mod signal_windowLength this = 0"
    and "processingWindow (nFrame this div signal_windowLength this)"
    and "fft_size_ok (sp_fftSize (signalProcessor this))"
  shows "\<exists>this' m. computeFrame xMean this = Inr this' \<and> isSignal this' = 1 \<and>
     currentMetrics this' = Some m \<and> emitted this' = emitted this @ [m] \<and>
     ac this' = map fround (detrend ((acdc this)[0 := fround xMean]))"
proof -
  obtain m sp where p: "process (signalProcessor this) ((acdc this)[0 := fround xMean])
      (map fround (detrend ((acdc this)[0 := fround xMean]))) = Inr (m, sp)"
    using process_ok[OF assms(5)] by blast
  show ?thesis
    using assms(1-4) by (simp add: computeFrame_def processBranch_def Let_def p)
qed

section \<open>Quality classification and guidance\<close>

text \<open>
  Claim C1. The claim asks that a NaN \<open>snr_dB\<close> yield the status \<open>Poor\<close> and a guidance
  message about an insufficient signal. The code gives the status \<open>Poor\<close>, but its
  guidance for the same input is \<open>Excellent signal!\<close>: every range test of
  \<open>generateGuidance\<close> is false for NaN, and the branch that the source comments as
  \<open>snr >= 10\<close> is taken, whatever the perfusion index and the stability. This happens
  for a window that \<open>process\<close> can receive: on the one-sample detrended window \<open>[NaN]\<close>
  (the output of \<open>detrend\<close> on one sample) with an FFT size of 4, the emitted record has
  \<open>snr_dB = NaN\<close>, the status \<open>Poor\<close> and the guidance \<open>Excellent signal!\<close>.
\<close>

theorem nan_snr_status_and_guidance_disagree:
  "getQualityStatus NaN = ''Poor'' \<and>
   generateGuidance NaN p st = ''Excellent signal!'' \<and>
   \<not> isl (process
       (SignalProcessor_new \<lparr>opt_windowLength = Some 1, opt_sampleRate = None,
          opt_cardiacBandLow = None, opt_cardiacBandHigh = None, opt_fftSize = Some 4\<rparr>)
       [Num 5] [NaN]) \<and>
   snr_dB (fst (projr (process
       (SignalProcessor_new \<lparr>opt_windowLength = Some 1, opt_sampleRate = None,
          opt_cardiacBandLow = None, opt_cardiacBandHigh = None, opt_fftSize = Some 4\<rparr>)
       [Num 5] [NaN]))) = NaN \<and>
   qualityStatus (fst (projr (process
       (SignalProcessor_new \<lparr>opt_windowLength = Some 1, opt_sampleRate = None,
          opt_cardiacBandLow = None, opt_cardiacBandHigh = None, opt_fftSize = Some 4\<rparr>)
       [Num 5] [NaN]))) = ''Poor'' \<and>
   guidanceMessage (fst (projr (process
       (SignalProcessor_new \<lparr>opt_windowLength = Some 1, opt_sampleRate = None,
          opt_cardiacBandLow = None, opt_cardiacBandHigh = None, opt_fftSize = Some 4\<rparr>)
       [Num 5] [NaN]))) = ''Excellent signal!''"
proof -
  let ?p = "SignalProcessor_new \<lparr>opt_windowLength = Some 1, opt_sampleRate = None,
          opt_cardiacBandLow = None, opt_cardiacBandHigh = None, opt_fftSize = Some 4\<rparr>"
  have status: "getQualityStatus NaN = ''Poor''"
    by (simp add: getQualityStatus_def jge_def)
  have guidance: "generateGuidance NaN q t = ''Excellent signal!''" for q t
    by (simp add: generateGuidance_def jge_def)
  have cfg: "sp_fftSize ?p = 4" "sp_sampleRate ?p = Num 60"
    "sp_cardiacBandLow ?p = Num (3 / 4)" "sp_cardiacBandHigh ?p = Num 4"
    by (simp_all add: SignalProcessor_new_def or_nat_def or_num_def)
  have pad: "map (\<lambda>i. if i < min (length [NaN]) 4 then fround ([NaN] ! i) else Num 0) [0..<4] =
      [NaN, Num 0, Num 0, Num 0]"
    by (simp add: upt_rec)
  have two: "[0..<4 div 2] = [0, Suc 0]" by (simp add: upt_rec)
  have bins: "dft_re [NaN, Num 0, Num 0, Num 0] k = NaN" for k
    by (simp add: dft_re_def jsum_def upt_rec)
  have fft: "computeFFT [NaN] (sp_fftSize ?p) (sp_sampleRate ?p) =
      Inr \<lparr>fft_psd = [NaN, NaN], fft_fftSize = 4, fft_sampleRate = Num 60,
           fft_freqResolution = Num 15\<rparr>"
    unfolding cfg computeFFT_def Let_def pad two
    by (simp add: bins fft_size_ok_def)
  have snr: "r_snr_dB (calculateSNRFromPSD [NaN, NaN] (Num 15) (Num (3 / 4)) (Num 4)) = NaN"
    by (simp add: calculateSNRFromPSD_def snr_step_def jge_def jgt_def jsub_def Let_def)
  from process_result[OF fft refl, of "[Num 5]"]
  show ?thesis
    by (elim exE conjE) (simp add: cfg snr status guidance del: One_nat_def)
qed

text \<open>
  Claim C8. For a finite \<open>snr_dB\<close> the status is \<open>Excellent\<close> exactly from 10 upwards,
  \<open>Good\<close> exactly on \<open>[5, 10)\<close>, \<open>Fair\<close> exactly on \<open>[0, 5)\<close> and \<open>Poor\<close> exactly below 0;
  the six boundary values of the specification are classified as it says.
\<close>

theorem getQualityStatus_boundaries:
  "(getQualityStatus (Num x) = ''Excellent'' \<longleftrightarrow> 10 \<le> x) \<and>
   (getQualityStatus (Num x) = ''Good'' \<longleftrightarrow> 5 \<le> x \<and> x < 10) \<and>
   (getQualityStatus (Num x) = ''Fair'' \<longleftrightarrow> 0 \<le> x \<and> x < 5) \<and>
   (getQualityStatus (Num x) = ''Poor'' \<longleftrightarrow> x < 0) \<and>
   getQualityStatus (Num 10) = ''Excellent'' \<and>
   getQualityStatus (Num (9999 / 1000)) = ''Good'' \<and>
   getQualityStatus (Num 5) = ''Good'' \<and>
   getQualityStatus (Num (4999 / 1000)) = ''Fair'' \<and>
   getQualityStatus (Num 0) = ''Fair'' \<and>
   getQualityStatus (Num (- 1 / 1000)) = ''Poor''"
  by (auto simp add: getQualityStatus_def jge_def)

section \<open>Construction\<close>

text \<open>
  Claim C3 (as amended). Constructing a \<open>SignalProcessor\<close> validates nothing and cannot
  fail: the window length and the FFT size are stored as given, an absent or zero value
  being replaced by the default 300 or 256. A window length below 2 is never rejected.
  An FFT size that is not a power of two of at least 2 is rejected only when a window is
  processed: \<open>process\<close> fails on every call exactly when the stored size is unacceptable
  to the transform.
\<close>

theorem constructor_stores_unvalidated:
  "sp_windowLength (SignalProcessor_new options) =
      (case opt_windowLength options of None \<Rightarrow> 300 | Some n \<Rightarrow> if n = 0 then 300 else n) \<and>
   sp_fftSize (SignalProcessor_new options) =
      (case opt_fftSize options of None \<Rightarrow> 256 | Some n \<Rightarrow> if n = 0 then 256 else n) \<and>
   ((process (SignalProcessor_new options) rawSignal detrendedSignal = Inl FFTSizeError) =
      (\<not> fft_size_ok (sp_fftSize (SignalProcessor_new options))))"
  by (simp add: SignalProcessor_new_def or_nat_def process_fails_iff)

text \<open>
  The claim as stated fails: a window length of 1 and an FFT size of 3 are accepted and
  stored.
\<close>

theorem constructor_accepts_invalid_counterexample:
  "SignalProcessor_new
     \<lparr>opt_windowLength = Some 1, opt_sampleRate = None, opt_cardiacBandLow = None,
      opt_cardiacBandHigh = None, opt_fftSize = Some 3\<rparr> =
   \<lparr>sp_windowLength = 1, sp_sampleRate = Num 60, sp_cardiacBandLow = Num (3 / 4),
    sp_cardiacBandHigh = Num 4, sp_fftSize = 3, sp_previousVariance = Num 0,
    sp_qualityFrameCount = 0\<rparr>"
  by (simp add: SignalProcessor_new_def or_nat_def or_num_def)

section \<open>Stability\<close>

text \<open>
  Claim C4 (as amended). On a processor whose stored variance is 0, a call with a
  variance \<open>v > 0\<close> returns 1 and stores \<open>v\<close>; a second call with the same \<open>v\<close> is computed
  like every later call and returns \<open>v / (v + 1e-10)\<close>, which need not be 1. Whenever the
  stored variance is not 0, a call returns
  \<open>min(cur, prev) / (max(cur, prev) + 1e-10)\<close> and stores \<open>cur\<close>.
\<close>

theorem calculateStability_calls:
  "(sp_previousVariance this = Num 0 \<and> jgt v (Num 0) \<longrightarrow>
      calculateStability v this = (Num 1, this\<lparr>sp_previousVariance := v\<rparr>) \<and>
      calculateStability v (this\<lparr>sp_previousVariance := v\<rparr>) =
        (jdiv v (jadd v epsilon), this\<lparr>sp_previousVariance := v\<rparr>)) \<and>
   (\<not> jeq (sp_previousVariance that) (Num 0) \<longrightarrow>
      calculateStability cur that =
        (jdiv (Math_min cur (sp_previousVariance that))
              (jadd (Math_max cur (sp_previousVariance that)) epsilon),
         that\<lparr>sp_previousVariance := cur\<rparr>))"
  by (cases v) (auto simp add: calculateStability_def jgt_def epsilon_def Let_def)

theorem calculateStability_calls_witness:
  "sp_previousVariance (SignalProcessor_new
       \<lparr>opt_windowLength = None, opt_sampleRate = None, opt_cardiacBandLow = None,
        opt_cardiacBandHigh = None, opt_fftSize = None\<rparr>) = Num 0 \<and>
   jgt (Num 2) (Num 0) \<and>
   calculateStability (Num 2) (SignalProcessor_new
       \<lparr>opt_windowLength = None, opt_sampleRate = None, opt_cardiacBandLow = None,
        opt_cardiacBandHigh = None, opt_fftSize = None\<rparr>) =
     (Num 1, (SignalProcessor_new
       \<lparr>opt_windowLength = None, opt_sampleRate = None, opt_cardiacBandLow = None,
        opt_cardiacBandHigh = None, opt_fftSize = None\<rparr>)\<lparr>sp_previousVariance := Num 2\<rparr>) \<and>
   \<not> jeq (sp_previousVariance (reset (SignalProcessor_new
       \<lparr>opt_windowLength = None, opt_sampleRate = None, opt_cardiacBandLow = None,
        opt_cardiacBandHigh = None, opt_fftSize = None\<rparr>)\<lparr>sp_previousVariance := Num 2\<rparr>))
          (Num 0) \<and>
   fst (calculateStability (Num 4) (reset (SignalProcessor_new
       \<lparr>opt_windowLength = None, opt_sampleRate = None, opt_cardiacBandLow = None,
        opt_cardiacBandHigh = None, opt_fftSize = None\<rparr>)\<lparr>sp_previousVariance := Num 2\<rparr>)) =
     jdiv (Num 2) (jadd (Num 4) epsilon)"
  using calculateStability_calls
    [of "SignalProcessor_new
           \<lparr>opt_windowLength = None, opt_sampleRate = None, opt_cardiacBandLow = None,
            opt_cardiacBandHigh = None, opt_fftSize = None\<rparr>"
        "Num 2"
        "reset (SignalProcessor_new
           \<lparr>opt_windowLength = None, opt_sampleRate = None, opt_cardiacBandLow = None,
            opt_cardiacBandHigh = None, opt_fftSize = None\<rparr>)\<lparr>sp_previousVariance := Num 2\<rparr>"
        "Num 4"]
  by (simp add: SignalProcessor_new_def reset_def jgt_def)

text \<open>
  The claim as stated fails: two calls with the variance 1 on a fresh processor return
  1 and then \<open>1 / (1 + 1e-10)\<close>, which is not 1.
\<close>

theorem calculateStability_repeat_counterexample:
  "fst (calculateStability (Num 1) (snd (calculateStability (Num 1)
     (SignalProcessor_new
        \<lparr>opt_windowLength = None, opt_sampleRate = None, opt_cardiacBandLow = None,
         opt_cardiacBandHigh = None, opt_fftSize = None\<rparr>)))) =
     Num (10000000000 / 10000000001) \<and>
   Num (10000000000 / 10000000001) \<noteq> Num 1"
  by (simp add: calculateStability_def SignalProcessor_new_def epsilon_def)

text \<open>
  Claim C10. The first-call branch is keyed on the stored variance being 0, not on the
  number of calls. On a processor whose stored variance is 0 (as after \<open>reset\<close>) every
  call returns 1 and stores its variance; a call with the variance 0 therefore leaves
  the stored variance at 0, and the call that follows is again a first call: it returns
  1 whatever its variance \<open>w\<close> and stores \<open>w\<close>. A processor whose stored variance is not 0
  does not take this branch: it returns \<open>min(cur, prev) / (max(cur, prev) + 1e-10)\<close>.
\<close>

theorem calculateStability_zero_stays_first:
  "sp_previousVariance (reset that) = Num 0 \<and>
   calculateStability (Num 0) (reset that) = (Num 1, reset that) \<and>
   (sp_previousVariance this = Num 0 \<longrightarrow>
      calculateStability v this = (Num 1, this\<lparr>sp_previousVariance := v\<rparr>) \<and>
      calculateStability (Num 0) this = (Num 1, this) \<and>
      calculateStability w (snd (calculateStability (Num 0) this)) =
        (Num 1, this\<lparr>sp_previousVariance := w\<rparr>)) \<and>
   (\<not> jeq (sp_previousVariance other) (Num 0) \<longrightarrow>
      calculateStability cur other =
        (jdiv (Math_min cur (sp_previousVariance other))
              (jadd (Math_max cur (sp_previousVariance other)) epsilon),
         other\<lparr>sp_previousVariance := cur\<rparr>))"
  by (simp add: calculateStability_def reset_def Let_def)

theorem calculateStability_zero_stays_first_witness:
  "sp_previousVariance (reset (SignalProcessor_new
       \<lparr>opt_windowLength = None, opt_sampleRate = None, opt_cardiacBandLow = None,
        opt_cardiacBandHigh = None, opt_fftSize = None\<rparr>\<lparr>sp_previousVariance := Num 2\<rparr>)) = Num 0 \<and>
   fst (calculateStability (Num 0) (reset (SignalProcessor_new
       \<lparr>opt_windowLength = None, opt_sampleRate = None, opt_cardiacBandLow = None,
        opt_cardiacBandHigh = None, opt_fftSize = None\<rparr>\<lparr>sp_previousVariance := Num 2\<rparr>))) = Num 1 \<and>
   sp_previousVariance (snd (calculateStability (Num 0) (reset (SignalProcessor_new
       \<lparr>opt_windowLength = None, opt_sampleRate = None, opt_cardiacBandLow = None,
        opt_cardiacBandHigh = None, opt_fftSize = None\<rparr>\<lparr>sp_previousVariance := Num 2\<rparr>)))) = Num 0 \<and>
   fst (calculateStability (Num 7)
     (snd (calculateStability (Num 0) (reset (SignalProcessor_new
       \<lparr>opt_windowLength = None, opt_sampleRate = None, opt_cardiacBandLow = None,
        opt_cardiacBandHigh = None, opt_fftSize = None\<rparr>\<lparr>sp_previousVariance := Num 2\<rparr>))))) = Num 1 \<and>
   sp_previousVariance (snd (calculateStability (Num 7)
     (snd (calculateStability (Num 0) (reset (SignalProcessor_new
       \<lparr>opt_windowLength = None, opt_sampleRate = None, opt_cardiacBandLow = None,
        opt_cardiacBandHigh = None, opt_fftSize = None\<rparr>\<lparr>sp_previousVariance := Num 2\<rparr>)))))) = Num 7 \<and>
   \<not> jeq (sp_previousVariance (SignalProcessor_new
       \<lparr>opt_windowLength = None, opt_sampleRate = None, opt_cardiacBandLow = None,
        opt_cardiacBandHigh = None, opt_fftSize = None\<rparr>\<lparr>sp_previousVariance := Num 2\<rparr>)) (Num 0) \<and>
   calculateStability (Num 0) (SignalProcessor_new
       \<lparr>opt_windowLength = None, opt_sampleRate = None, opt_cardiacBandLow = None,
        opt_cardiacBandHigh = None, opt_fftSize = None\<rparr>\<lparr>sp_previousVariance := Num 2\<rparr>) =
     (Num 0, SignalProcessor_new
       \<lparr>opt_windowLength = None, opt_sampleRate = None, opt_cardiacBandLow = None,
        opt_cardiacBandHigh = None, opt_fftSize = None\<rparr>\<lparr>sp_previousVariance := Num 0\<rparr>)"
  using calculateStability_zero_stays_first
    [of "SignalProcessor_new
           \<lparr>opt_windowLength = None, opt_sampleRate = None, opt_cardiacBandLow = None,
            opt_cardiacBandHigh = None, opt_fftSize = None\<rparr>\<lparr>sp_previousVariance := Num 2\<rparr>"
        "reset (SignalProcessor_new
           \<lparr>opt_windowLength = None, opt_sampleRate = None, opt_cardiacBandLow = None,
            opt_cardiacBandHigh = None, opt_fftSize = None\<rparr>\<lparr>sp_previousVariance := Num 2\<rparr>)"
        "Num 0" "Num 7"
        "SignalProcessor_new
           \<lparr>opt_windowLength = None, opt_sampleRate = None, opt_cardiacBandLow = None,
            opt_cardiacBandHigh = None, opt_fftSize = None\<rparr>\<lparr>sp_previousVariance := Num 2\<rparr>"
        "Num 0"]
  by (simp add: calculateStability_def SignalProcessor_new_def reset_def epsilon_def Let_def)

section \<open>Detrending\<close>

lemma sum_index: "(\<Sum>i<n. real i) = real n * (real n - 1) / 2"
  by (induction n) (simp_all add: field_simps)

lemma sum_index_sq: "(\<Sum>i<n. real i * real i) = (real n - 1) * real n * (2 * real n - 1) / 6"
  by (induction n) (simp_all add: field_simps)

text \<open>On finite samples the regression loop computes the four sums.\<close>

lemma detrend_loop_finite:
  "k \<le> length rs \<Longrightarrow>
   foldl (detrend_step (map Num rs)) (Num 0, Num 0, Num 0, Num 0) [0..<k] =
     (Num (\<Sum>i<k. real i), Num (\<Sum>i<k. rs ! i), Num (\<Sum>i<k. real i * rs ! i),
      Num (\<Sum>i<k. real i * real i))"
  by (induction k) (simp_all add: detrend_step_def)

text \<open>The denominator \<open>n \<cdot> sxx - sx\<^sup>2\<close> equals \<open>n\<^sup>2 (n - 1) (n + 1) / 12\<close>.\<close>

lemma regression_denominator:
  "real n * (\<Sum>i<n. real i * real i) - (\<Sum>i<n. real i) * (\<Sum>i<n. real i) =
   real n * real n * (real n - 1) * (real n + 1) / 12"
  by (simp add: sum_index sum_index_sq field_simps)

lemma regression_denominator_pos:
  assumes "2 \<le> n"
  shows "0 < real n * (\<Sum>i<n. real i * real i) - (\<Sum>i<n. real i) * (\<Sum>i<n. real i)"
proof -
  have "1 < real n" using assms by simp
  then have "0 < real n * real n * (real n - 1) * (real n + 1) / 12" by simp
  then show ?thesis using regression_denominator[of n] by simp
qed

lemma linear_sums:
  "(\<Sum>i<n. a + b * real i) = real n * a + b * (\<Sum>i<n. real i)"
  "(\<Sum>i<n. real i * (a + b * real i)) = a * (\<Sum>i<n. real i) + b * (\<Sum>i<n. real i * real i)"
  by (simp_all add: sum.distrib sum_distrib_left algebra_simps)

lemma detrend_short: "length y < 2 \<Longrightarrow> detrend y = replicate (length y) NaN"
proof (cases y)
  case Nil
  then show ?thesis by (simp add: detrend_def)
next
  case (Cons v vs)
  assume "length y < 2"
  with Cons have y: "y = [v]" by simp
  show ?thesis
    by (cases v) (simp_all add: y detrend_def detrend_step_def jsub_def)
qed

text \<open>
  Claim C6. For an exactly linear input \<open>y\<^sub>i = a + b \<cdot> i\<close> of \<open>n \<ge> 2\<close> finite samples,
  \<open>detrend\<close> returns zero at every index. The arithmetic of the model is exact, so the
  residual is exactly zero; this is the value that the floating-point result
  approximates.
\<close>

theorem detrend_linear:
  assumes "2 \<le> n"
  shows "detrend (map (\<lambda>i. Num (a + b * real i)) [0..<n]) = replicate n (Num 0)"
proof -
  define rs where "rs = map (\<lambda>i. a + b * real i) [0..<n]"
  define S1 where "S1 = (\<Sum>i<n. real i)"
  define S2 where "S2 = (\<Sum>i<n. real i * real i)"
  define D where "D = real n * S2 - S1 * S1"
  have len: "length rs = n" by (simp add: rs_def)
  have ys: "map (\<lambda>i. Num (a + b * real i)) [0..<n] = map Num rs" by (simp add: rs_def)
  have nth: "\<And>i. i < n \<Longrightarrow> rs ! i = a + b * real i" by (simp add: rs_def)
  have sy: "(\<Sum>i<n. rs ! i) = real n * a + b * S1"
    using linear_sums(1)[of a b n] nth by (simp add: S1_def)
  have sxy: "(\<Sum>i<n. real i * rs ! i) = a * S1 + b * S2"
    using linear_sums(2)[of a b n] nth by (simp add: S1_def S2_def)
  have D: "0 < D" using regression_denominator_pos[OF assms] by (simp add: D_def S1_def S2_def)
  have n0: "real n \<noteq> 0" using assms by simp
  have loop: "foldl (detrend_step (map Num rs)) (Num 0, Num 0, Num 0, Num 0) [0..<n] =
     (Num S1, Num (real n * a + b * S1), Num (a * S1 + b * S2), Num S2)"
    using detrend_loop_finite[of n rs] len sy sxy by (simp add: S1_def S2_def)
  have xy: "real n * (a * S1 + b * S2) - S1 * (real n * a + b * S1) = b * D"
    by (simp add: D_def algebra_simps)
  have slope: "b * D / D = b" using D by simp
  have icpt: "(real n * a + b * S1) / real n - b * (S1 / real n) = a"
    using n0 by (simp add: field_simps)
  have icpt': "b * S1 / real n - (real n * a + b * S1) / real n = - a"
    using n0 by (simp add: field_simps)
  have "detrend (map Num rs) = map (\<lambda>i. Num (rs ! i - (a + b * real i))) [0..<n]"
    using D n0 by (simp add: detrend_def len loop jsub_def xy slope icpt icpt' D_def[symmetric])
  also have "\<dots> = map (\<lambda>i. Num 0) [0..<n]"
    by (rule map_cong) (simp_all add: nth)
  also have "\<dots> = replicate n (Num 0)"
    by (simp add: map_replicate_const)
  finally show ?thesis by (simp add: ys)
qed

theorem detrend_linear_witness:
  "(2::nat) \<le> 3 \<and> detrend [Num 1, Num 3, Num 5] = [Num 0, Num 0, Num 0]"
  using detrend_linear[of 3 1 2] by (simp add: upt_rec numeral_3_eq_3)

text \<open>
  Claim C2 (as amended). \<open>detrend\<close> never raises: on a window of fewer than 2 samples it
  returns an array of the same length, empty for no sample and \<open>[NaN]\<close> for one
  sample, since slope and intercept are then \<open>0/0\<close>. The frame loop goes on with the
  remaining stages: with a window length of 1, a processing boundary stores \<open>[NaN]\<close> as
  the AC window, runs \<open>process\<close> and emits its metrics record.
\<close>

theorem detrend_short_window:
  "(length y < 2 \<longrightarrow> detrend y = replicate (length y) NaN) \<and>
   (DURATION < nFrame this \<and> signal_windowLength this = 1 \<and> length (acdc this) = 1 \<and>
    processingWindow (nFrame this) \<and> fft_size_ok (sp_fftSize (signalProcessor this)) \<longrightarrow>
      (\<exists>this' m. computeFrame xMean this = Inr this' \<and> ac this' = [NaN] \<and>
         currentMetrics this' = Some m \<and> emitted this' = emitted this @ [m]))"
proof (intro conjI impI)
  assume "length y < 2"
  then show "detrend y = replicate (length y) NaN" by (rule detrend_short)
next
  assume a: "DURATION < nFrame this \<and> signal_windowLength this = 1 \<and> length (acdc this) = 1 \<and>
    processingWindow (nFrame this) \<and> fft_size_ok (sp_fftSize (signalProcessor this))"
  then have len: "length ((acdc this)[0 := fround xMean]) < 2" by simp
  from a have "\<exists>this' m. computeFrame xMean this = Inr this' \<and> isSignal this' = 1 \<and>
     currentMetrics this' = Some m \<and> emitted this' = emitted this @ [m] \<and>
     ac this' = map fround (detrend ((acdc this)[0 := fround xMean]))"
    by (intro computeFrame_processing) simp_all
  then show "\<exists>this' m. computeFrame xMean this = Inr this' \<and> ac this' = [NaN] \<and>
         currentMetrics this' = Some m \<and> emitted this' = emitted this @ [m]"
    using detrend_short[OF len] a by auto
qed

theorem detrend_short_window_witness:
  "length [Num 5] < 2 \<and> detrend [Num 5] = [NaN] \<and>
   DURATION < nFrame ((PPGMonitor_new \<lparr>opt_windowLength = Some 1, opt_sampleRate = None,
        opt_cardiacBandLow = None, opt_cardiacBandHigh = None, opt_fftSize = None\<rparr>)
      \<lparr>nFrame := 200\<rparr>) \<and>
   processingWindow 200 \<and> fft_size_ok 256 \<and>
   (\<exists>this' m. computeFrame (Num 5)
       ((PPGMonitor_new \<lparr>opt_windowLength = Some 1, opt_sampleRate = None,
          opt_cardiacBandLow = None, opt_cardiacBandHigh = None, opt_fftSize = None\<rparr>)
        \<lparr>nFrame := 200\<rparr>) = Inr this' \<and>
      ac this' = [NaN] \<and> currentMetrics this' = Some m \<and> emitted this' = [m])"
  using detrend_short_window
    [of "[Num 5]"
        "(PPGMonitor_new \<lparr>opt_windowLength = Some 1, opt_sampleRate = None,
           opt_cardiacBandLow = None, opt_cardiacBandHigh = None, opt_fftSize = None\<rparr>)
         \<lparr>nFrame := 200\<rparr>"
        "Num 5"]
  by (simp add: PPGMonitor_new_def createDefaultOptions_def SignalProcessor_new_def
        or_nat_def DURATION_def processingWindow_def fft_size_ok_def Let_def)

text \<open>
  The claim as stated fails: \<open>detrend\<close> returns \<open>[NaN]\<close> for the one-sample window
  \<open>[5]\<close>, and a monitor with a window length of 1 at frame 200 (a processing boundary)
  completes the frame and emits a metrics record.
\<close>

theorem detrend_short_window_counterexample:
  "detrend [Num 5] = [NaN] \<and>
   \<not> isl (computeFrame (Num 5)
     ((PPGMonitor_new \<lparr>opt_windowLength = Some 1, opt_sampleRate = None,
        opt_cardiacBandLow = None, opt_cardiacBandHigh = None, opt_fftSize = None\<rparr>)
      \<lparr>nFrame := 200\<rparr>)) \<and>
   length (emitted (projr (computeFrame (Num 5)
     ((PPGMonitor_new \<lparr>opt_windowLength = Some 1, opt_sampleRate = None,
        opt_cardiacBandLow = None, opt_cardiacBandHigh = None, opt_fftSize = None\<rparr>)
      \<lparr>nFrame := 200\<rparr>)))) = 1"
proof -
  let ?m = "(PPGMonitor_new \<lparr>opt_windowLength = Some 1, opt_sampleRate = None,
        opt_cardiacBandLow = None, opt_cardiacBandHigh = None, opt_fftSize = None\<rparr>)
      \<lparr>nFrame := 200\<rparr>"
  have "\<exists>this' m. computeFrame (Num 5) ?m = Inr this' \<and> isSignal this' = 1 \<and>
     currentMetrics this' = Some m \<and> emitted this' = emitted ?m @ [m] \<and>
     ac this' = map fround (detrend ((acdc ?m)[0 := fround (Num 5)]))"
    by (rule computeFrame_processing)
       (simp_all add: PPGMonitor_new_def createDefaultOptions_def SignalProcessor_new_def
          or_nat_def DURATION_def processingWindow_def fft_size_ok_def Let_def)
  then obtain this' m where "computeFrame (Num 5) ?m = Inr this'" "emitted this' = emitted ?m @ [m]"
    by blast
  moreover have "emitted ?m = []" by (simp add: PPGMonitor_new_def Let_def)
  moreover have "detrend [Num 5] = [NaN]" by (simp add: detrend_def detrend_step_def jsub_def)
  ultimately show ?thesis by simp
qed


section \<open>Heart rate and beat interval\<close>

text \<open>The transform of one period of a cosine over four samples, and the peak found in
  its spectrum at a sample rate of 4.25 Hz.\<close>

lemma dft_cosine4:
  "dft_re [Num 1, Num 0, Num (- 1), Num 0] 0 = Num 0"
  "dft_im [Num 1, Num 0, Num (- 1), Num 0] 0 = Num 0"
  "dft_re [Num 1, Num 0, Num (- 1), Num 0] (Suc 0) = Num 2"
  "dft_im [Num 1, Num 0, Num (- 1), Num 0] (Suc 0) = Num 0"
  by (simp_all add: dft_re_def dft_im_def jsum_def upt_rec)

lemma computeFFT_cosine4:
  "computeFFT [Num 1, Num 0, Num (- 1), Num 0] 4 (Num (17 / 4)) =
   Inr \<lparr>fft_psd = [Num 0, Num 4], fft_fftSize = 4, fft_sampleRate = Num (17 / 4),
        fft_freqResolution = Num (17 / 16)\<rparr>"
proof -
  have pad: "map (\<lambda>i. if i < min (length [Num 1, Num 0, Num (- 1), Num 0]) 4
                      then fround ([Num 1, Num 0, Num (- 1), Num 0] ! i) else Num 0) [0..<4] =
      [Num 1, Num 0, Num (- 1), Num 0]"
    by (simp add: upt_rec fround_exact del: fround.simps)
  have two: "[0..<4 div 2] = [0, Suc 0]" by (simp add: upt_rec)
  show ?thesis
    unfolding computeFFT_def Let_def pad two
    by (simp add: dft_cosine4 fft_size_ok_def fround_exact del: fround.simps)
qed

lemma peak_cosine4:
  "r_peakFrequency (calculateSNRFromPSD [Num 0, Num 4] (Num (17 / 16)) (Num (3 / 4)) (Num 4)) =
   Num (17 / 16)"
  by (simp add: calculateSNRFromPSD_def snr_step_def jge_def jgt_def Let_def)

text \<open>
  Claim C5 (as amended). Every window that \<open>process\<close> handles (the FFT size being
  acceptable) yields a metrics record whose \<open>heartRate\<close> is \<open>round(peakFrequency \<cdot> 60)\<close>.
  Its \<open>ibi\<close> is computed from the unrounded rate \<open>h = peakFrequency \<cdot> 60\<close>: it is
  \<open>round(60000 / h)\<close> whenever \<open>0 < h < 300\<close>, and 0 otherwise.
\<close>

theorem process_heartRate_ibi:
  assumes "fft_size_ok (sp_fftSize this)"
  shows "\<exists>m this'. process this rawSignal detrendedSignal = Inr (m, this') \<and>
     heartRate m = Math_round (jmul (peakFrequency m) (Num 60)) \<and>
     ibi m = (if jgt (jmul (peakFrequency m) (Num 60)) (Num 0) \<and>
                 jlt (jmul (peakFrequency m) (Num 60)) (Num 300)
              then Math_round (jdiv (Num 60000) (jmul (peakFrequency m) (Num 60)))
              else Num 0)"
proof -
  obtain r where fft: "computeFFT detrendedSignal (sp_fftSize this) (sp_sampleRate this) = Inr r"
    using computeFFT_ok[OF assms] by blast
  from process_result[OF fft refl, of rawSignal] show ?thesis
    by (elim exE conjE) (intro exI conjI, assumption, simp_all)
qed

theorem process_heartRate_ibi_witness:
  "fft_size_ok (sp_fftSize
     (SignalProcessor_new \<lparr>opt_windowLength = Some 4, opt_sampleRate = Some (Num (17 / 4)),
        opt_cardiacBandLow = None, opt_cardiacBandHigh = None, opt_fftSize = Some 4\<rparr>)) \<and>
   (\<exists>m this'. process
       (SignalProcessor_new \<lparr>opt_windowLength = Some 4, opt_sampleRate = Some (Num (17 / 4)),
          opt_cardiacBandLow = None, opt_cardiacBandHigh = None, opt_fftSize = Some 4\<rparr>)
       [Num (3 / 2), Num (1 / 2), Num (- 1 / 2), Num (1 / 2)]
       [Num 1, Num 0, Num (- 1), Num 0] = Inr (m, this') \<and>
     heartRate m = Math_round (jmul (peakFrequency m) (Num 60)) \<and>
     ibi m = (if jgt (jmul (peakFrequency m) (Num 60)) (Num 0) \<and>
                 jlt (jmul (peakFrequency m) (Num 60)) (Num 300)
              then Math_round (jdiv (Num 60000) (jmul (peakFrequency m) (Num 60)))
              else Num 0))"
  using process_heartRate_ibi
    [of "SignalProcessor_new \<lparr>opt_windowLength = Some 4, opt_sampleRate = Some (Num (17 / 4)),
           opt_cardiacBandLow = None, opt_cardiacBandHigh = None, opt_fftSize = Some 4\<rparr>"
        "[Num (3 / 2), Num (1 / 2), Num (- 1 / 2), Num (1 / 2)]"
        "[Num 1, Num 0, Num (- 1), Num 0]"]
  by (simp add: SignalProcessor_new_def or_nat_def fft_size_ok_def)

text \<open>
  The claim as stated fails: with a sample rate of 4.25 Hz and an FFT size of 4, the
  window \<open>[1, 0, -1, 0]\<close> has its peak at 1.0625 Hz, that is 63.75 beats per minute. The
  record carries \<open>heartRate = 64\<close> and \<open>ibi = round(60000 / 63.75) = 941\<close>, whereas
  \<open>round(60000 / 64)\<close> is 938.
\<close>

theorem process_ibi_counterexample:
  "\<not> isl (process
       (SignalProcessor_new \<lparr>opt_windowLength = Some 4, opt_sampleRate = Some (Num (17 / 4)),
          opt_cardiacBandLow = None, opt_cardiacBandHigh = None, opt_fftSize = Some 4\<rparr>)
       [Num (3 / 2), Num (1 / 2), Num (- 1 / 2), Num (1 / 2)]
       [Num 1, Num 0, Num (- 1), Num 0]) \<and>
   heartRate (fst (projr (process
       (SignalProcessor_new \<lparr>opt_windowLength = Some 4, opt_sampleRate = Some (Num (17 / 4)),
          opt_cardiacBandLow = None, opt_cardiacBandHigh = None, opt_fftSize = Some 4\<rparr>)
       [Num (3 / 2), Num (1 / 2), Num (- 1 / 2), Num (1 / 2)]
       [Num 1, Num 0, Num (- 1), Num 0]))) = Num 64 \<and>
   ibi (fst (projr (process
       (SignalProcessor_new \<lparr>opt_windowLength = Some 4, opt_sampleRate = Some (Num (17 / 4)),
          opt_cardiacBandLow = None, opt_cardiacBandHigh = None, opt_fftSize = Some 4\<rparr>)
       [Num (3 / 2), Num (1 / 2), Num (- 1 / 2), Num (1 / 2)]
       [Num 1, Num 0, Num (- 1), Num 0]))) = Num 941 \<and>
   Math_round (jdiv (Num 60000) (Num 64)) = Num 938"
proof -
  let ?p = "SignalProcessor_new \<lparr>opt_windowLength = Some 4, opt_sampleRate = Some (Num (17 / 4)),
          opt_cardiacBandLow = None, opt_cardiacBandHigh = None, opt_fftSize = Some 4\<rparr>"
  have cfg: "sp_fftSize ?p = 4" "sp_sampleRate ?p = Num (17 / 4)"
    "sp_cardiacBandLow ?p = Num (3 / 4)" "sp_cardiacBandHigh ?p = Num 4"
    by (simp_all add: SignalProcessor_new_def or_nat_def or_num_def)
  have fft: "computeFFT [Num 1, Num 0, Num (- 1), Num 0] (sp_fftSize ?p) (sp_sampleRate ?p) =
      Inr \<lparr>fft_psd = [Num 0, Num 4], fft_fftSize = 4, fft_sampleRate = Num (17 / 4),
        fft_freqResolution = Num (17 / 16)\<rparr>"
    by (simp only: cfg computeFFT_cosine4)
  from process_result[OF fft refl, of "[Num (3 / 2), Num (1 / 2), Num (- 1 / 2), Num (1 / 2)]"]
  show ?thesis
    by (elim exE conjE) (simp add: cfg peak_cosine4 jgt_def)
qed


section \<open>Band power and signal-to-noise ratio\<close>

text \<open>The loop of \<open>calculateSNRFromPSD\<close> accumulates the in-band bins and all bins.\<close>

lemma snr_loop_sums:
  "foldl (snr_step psd low high) (sp, tp, mp, pk) xs = (sp', tp', mp', pk') \<Longrightarrow>
   sp' = foldl jadd sp (map ((!) psd)
           (filter (\<lambda>i. jge (Num (real i)) low \<and> jle (Num (real i)) high) xs)) \<and>
   tp' = foldl jadd tp (map ((!) psd) xs)"
proof (induction xs arbitrary: sp tp mp pk)
  case Nil
  then show ?case by simp
next
  case (Cons i xs)
  obtain sp1 tp1 mp1 pk1 where
    step: "snr_step psd low high (sp, tp, mp, pk) i = (sp1, tp1, mp1, pk1)"
    by (cases "snr_step psd low high (sp, tp, mp, pk) i") auto
  from Cons.prems
  have "foldl (snr_step psd low high) (sp1, tp1, mp1, pk1) xs = (sp', tp', mp', pk')"
    by (simp add: step)
  from Cons.IH[OF this] step show ?case
    by (auto simp add: snr_step_def split: if_splits)
qed

lemma calculateSNRFromPSD_sums:
  "r_totalPower (calculateSNRFromPSD psd fr lo hi) = jsum (map ((!) psd) [1..<length psd]) \<and>
   r_signalPower (calculateSNRFromPSD psd fr lo hi) =
     jsum (map ((!) psd)
       (filter (\<lambda>i. jge (Num (real i)) (Math_floor (jdiv lo fr)) \<and>
                     jle (Num (real i)) (Math_ceil (jdiv hi fr))) [1..<length psd])) \<and>
   r_noisePower (calculateSNRFromPSD psd fr lo hi) =
     jsub (r_totalPower (calculateSNRFromPSD psd fr lo hi))
          (r_signalPower (calculateSNRFromPSD psd fr lo hi)) \<and>
   r_snr_dB (calculateSNRFromPSD psd fr lo hi) =
     jmul (Num 10) (Math_log10
       (jdiv (jadd (r_signalPower (calculateSNRFromPSD psd fr lo hi)) (Num (1 / 10 ^ 10)))
             (jadd (r_noisePower (calculateSNRFromPSD psd fr lo hi)) (Num (1 / 10 ^ 10)))))"
proof -
  obtain sp tp mp pk where loop:
    "foldl (snr_step psd (Math_floor (jdiv lo fr)) (Math_ceil (jdiv hi fr)))
       (Num 0, Num 0, Num 0, 0) [1..<length psd] = (sp, tp, mp, pk)"
    by (cases "foldl (snr_step psd (Math_floor (jdiv lo fr)) (Math_ceil (jdiv hi fr)))
       (Num 0, Num 0, Num 0, 0) [1..<length psd]") auto
  from snr_loop_sums[OF loop] loop show ?thesis
    by (simp add: calculateSNRFromPSD_def Let_def jsum_def epsilon_def)
qed

lemma jsum_zeros: "foldl jadd (Num 0) (replicate n (Num 0)) = Num 0"
  by (induction n) simp_all

lemma map_nth_replicate:
  "set xs \<subseteq> {..<n} \<Longrightarrow> map ((!) (replicate n c)) xs = replicate (length xs) c"
  by (induction xs) auto

lemma calculateSNRFromPSD_silence:
  "r_snr_dB (calculateSNRFromPSD (replicate m (Num 0)) fr lo hi) = Num 0"
proof -
  let ?r = "calculateSNRFromPSD (replicate m (Num 0)) fr lo hi"
  let ?band = "filter (\<lambda>i. jge (Num (real i)) (Math_floor (jdiv lo fr)) \<and>
                     jle (Num (real i)) (Math_ceil (jdiv hi fr))) [1..<m]"
  have "set ?band \<subseteq> {..<m}" by auto
  then have sp: "r_signalPower ?r = Num 0"
    using calculateSNRFromPSD_sums[of "replicate m (Num 0)" fr lo hi]
    by (simp add: jsum_def map_nth_replicate jsum_zeros)
  have "set [1..<m] \<subseteq> {..<m}" by auto
  then have tp: "r_totalPower ?r = Num 0"
    using calculateSNRFromPSD_sums[of "replicate m (Num 0)" fr lo hi]
    by (simp add: jsum_def map_nth_replicate jsum_zeros)
  have np: "r_noisePower ?r = Num 0"
    using calculateSNRFromPSD_sums[of "replicate m (Num 0)" fr lo hi]
    by (simp add: sp tp jsub_def)
  show ?thesis
    using calculateSNRFromPSD_sums[of "replicate m (Num 0)" fr lo hi] by (simp add: sp np)
qed

lemma dft_zero:
  "dft_re (replicate n (Num 0)) k = Num 0" "dft_im (replicate n (Num 0)) k = Num 0"
proof -
  have "map (\<lambda>j. jmul (replicate n (Num 0) ! j) (Num (c j))) [0..<n] = replicate n (Num 0)" for c
    by (simp add: list_eq_iff_nth_eq)
  then show "dft_re (replicate n (Num 0)) k = Num 0" "dft_im (replicate n (Num 0)) k = Num 0"
    by (simp_all add: dft_re_def dft_im_def jsum_def jsum_zeros)
qed

lemma computeFFT_zero:
  assumes "fft_size_ok fftSize"
  shows "computeFFT (replicate n (Num 0)) fftSize sampleRate =
     Inr \<lparr>fft_psd = replicate (fftSize div 2) (Num 0), fft_fftSize = fftSize,
          fft_sampleRate = sampleRate,
          fft_freqResolution = jdiv sampleRate (Num (real fftSize))\<rparr>"
proof -
  have pad: "map (\<lambda>i. if i < n \<and> i < fftSize then fround (replicate n (Num 0) ! i) else Num 0)
               [0..<fftSize] = replicate fftSize (Num 0)"
    by (simp add: list_eq_iff_nth_eq)
  have bins: "map (\<lambda>i. let real' = dft_re (replicate fftSize (Num 0)) i;
                         imag = dft_im (replicate fftSize (Num 0)) i
                     in fround (jadd (jmul real' real') (jmul imag imag))) [0..<fftSize div 2] =
      replicate (fftSize div 2) (Num 0)"
    by (simp add: list_eq_iff_nth_eq dft_zero)
  show ?thesis
    using assms bins by (simp add: computeFFT_def Let_def pad)
qed

text \<open>
  Claim C7. \<open>calculateSNRFromPSD\<close> returns as \<open>totalPower\<close> the sum of the bins
  \<open>1 .. psd.length - 1\<close>, as \<open>signalPower\<close> the sum of those of them that lie between
  \<open>floor(low / freqResolution)\<close> and \<open>ceil(high / freqResolution)\<close>, as \<open>noisePower\<close> their
  difference, and as \<open>snr_dB\<close> the value
  \<open>10 \<cdot> log10((signalPower + 1e-10) / (noisePower + 1e-10))\<close>. \<open>computeFFT\<close> of an all-zero
  signal (with an acceptable FFT size) yields an all-zero spectrum, and on an all-zero
  spectrum \<open>snr_dB\<close> is exactly 0.
\<close>

theorem bandSNR_formula_and_silence:
  "r_totalPower (calculateSNRFromPSD psd fr lo hi) = jsum (map ((!) psd) [1..<length psd]) \<and>
   r_signalPower (calculateSNRFromPSD psd fr lo hi) =
     jsum (map ((!) psd)
       (filter (\<lambda>i. jge (Num (real i)) (Math_floor (jdiv lo fr)) \<and>
                     jle (Num (real i)) (Math_ceil (jdiv hi fr))) [1..<length psd])) \<and>
   r_noisePower (calculateSNRFromPSD psd fr lo hi) =
     jsub (r_totalPower (calculateSNRFromPSD psd fr lo hi))
          (r_signalPower (calculateSNRFromPSD psd fr lo hi)) \<and>
   r_snr_dB (calculateSNRFromPSD psd fr lo hi) =
     jmul (Num 10) (Math_log10
       (jdiv (jadd (r_signalPower (calculateSNRFromPSD psd fr lo hi)) (Num (1 / 10 ^ 10)))
             (jadd (r_noisePower (calculateSNRFromPSD psd fr lo hi)) (Num (1 / 10 ^ 10))))) \<and>
   (fft_size_ok fftSize \<longrightarrow>
      computeFFT (replicate n (Num 0)) fftSize sampleRate =
        Inr \<lparr>fft_psd = replicate (fftSize div 2) (Num 0), fft_fftSize = fftSize,
             fft_sampleRate = sampleRate,
             fft_freqResolution = jdiv sampleRate (Num (real fftSize))\<rparr>) \<and>
   r_snr_dB (calculateSNRFromPSD (replicate m (Num 0)) fr lo hi) = Num 0"
  using calculateSNRFromPSD_sums[of psd fr lo hi] computeFFT_zero[of fftSize n sampleRate]
    calculateSNRFromPSD_silence[of m fr lo hi]
  by blast

theorem bandSNR_formula_and_silence_witness:
  "fft_size_ok 4 \<and>
   computeFFT [Num 0, Num 0, Num 0] 4 (Num 60) =
     Inr \<lparr>fft_psd = [Num 0, Num 0], fft_fftSize = 4, fft_sampleRate = Num 60,
          fft_freqResolution = Num 15\<rparr> \<and>
   r_snr_dB (calculateSNRFromPSD [Num 0, Num 0] (Num 15) (Num (3 / 4)) (Num 4)) = Num 0 \<and>
   r_totalPower (calculateSNRFromPSD [Num 7, Num 1, Num 2] (Num 1) (Num 2) (Num 3)) = Num 3 \<and>
   r_signalPower (calculateSNRFromPSD [Num 7, Num 1, Num 2] (Num 1) (Num 2) (Num 3)) = Num 2"
proof -
  have ok: "fft_size_ok 4" by (simp add: fft_size_ok_def)
  have r3: "replicate 3 (Num 0) = [Num 0, Num 0, Num 0]" by (simp add: numeral_3_eq_3)
  have r2: "replicate 2 (Num 0) = [Num 0, Num 0]" by (simp add: numeral_2_eq_2)
  have idx: "[1..<length [Num 7, Num 1, Num 2]] = [1, 2]" by (simp add: upt_rec)
  show ?thesis
    using bandSNR_formula_and_silence
            [of "[Num 7, Num 1, Num 2]" "Num 1" "Num 2" "Num 3" 4 3 "Num 60" 2]
          bandSNR_formula_and_silence
            [of "[Num 7, Num 1, Num 2]" "Num 15" "Num (3 / 4)" "Num 4" 4 3 "Num 60" 2]
          ok r3 r2
    by (simp add: idx jsum_def jge_def)
qed

section \<open>The window schedule\<close>

text \<open>
  Claim C9 (as amended). Windows are counted by the frame counter \<open>nFrame\<close>, which counts
  every frame, the 101 warm-up frames included; a warm-up frame only advances the
  counter and ingests nothing. A window boundary is a frame past the warm-up whose
  counter is a multiple of the window length, and its window index is
  \<open>nFrame / windowLength\<close>. If \<open>floor(index / 100) mod 2\<close> is 0 the frame processes the
  window, sets \<open>isSignal\<close> to 1 and emits a new metrics record; otherwise it holds:
  \<open>isSignal\<close> becomes 0 and neither the current metrics nor the list of emitted records
  changes. By index, the windows \<open>200k .. 200k + 99\<close> are processed and the windows
  \<open>200k + 100 .. 200k + 199\<close> are held.
\<close>

theorem window_schedule:
  "(nFrame this \<le> DURATION \<longrightarrow>
      computeFrame xMean this = Inr (this\<lparr>nFrame := nFrame this + 1\<rparr>)) \<and>
   (DURATION < nFrame this \<and> signal_windowLength this \<noteq> 0 \<and>
    nFrame this mod signal_windowLength this = 0 \<longrightarrow>
      ((nFrame this div signal_windowLength this div 100) mod 2 = 0 \<and>
       fft_size_ok (sp_fftSize (signalProcessor this)) \<longrightarrow>
         (\<exists>this' m. computeFrame xMean this = Inr this' \<and> isSignal this' = 1 \<and>
            currentMetrics this' = Some m \<and> emitted this' = emitted this @ [m])) \<and>
      ((nFrame this div signal_windowLength this div 100) mod 2 \<noteq> 0 \<longrightarrow>
         (\<exists>this'. computeFrame xMean this = Inr this' \<and> isSignal this' = 0 \<and>
            currentMetrics this' = currentMetrics this \<and> emitted this' = emitted this))) \<and>
   (j < 100 \<longrightarrow> processingWindow (200 * k + j) \<and> \<not> processingWindow (200 * k + 100 + j))"
proof (intro conjI impI)
  assume "nFrame this \<le> DURATION"
  then show "computeFrame xMean this = Inr (this\<lparr>nFrame := nFrame this + 1\<rparr>)"
    by (rule computeFrame_warmup)
next
  assume b: "DURATION < nFrame this \<and> signal_windowLength this \<noteq> 0 \<and>
    nFrame this mod signal_windowLength this = 0"
    and a: "(nFrame this div signal_windowLength this div 100) mod 2 = 0 \<and>
       fft_size_ok (sp_fftSize (signalProcessor this))"
  have "\<exists>this' m. computeFrame xMean this = Inr this' \<and> isSignal this' = 1 \<and>
     currentMetrics this' = Some m \<and> emitted this' = emitted this @ [m] \<and>
     ac this' = map fround (detrend ((acdc this)[0 := fround xMean]))"
    using a b by (intro computeFrame_processing) (simp_all add: processingWindow_def)
  then show "\<exists>this' m. computeFrame xMean this = Inr this' \<and> isSignal this' = 1 \<and>
            currentMetrics this' = Some m \<and> emitted this' = emitted this @ [m]"
    by blast
next
  assume b: "DURATION < nFrame this \<and> signal_windowLength this \<noteq> 0 \<and>
    nFrame this mod signal_windowLength this = 0"
    and h: "(nFrame this div signal_windowLength this div 100) mod 2 \<noteq> 0"
  have "\<exists>this'. computeFrame xMean this = Inr this' \<and> isSignal this' = 0 \<and>
     currentMetrics this' = currentMetrics this \<and> emitted this' = emitted this \<and>
     signalProcessor this' = signalProcessor this \<and>
     ac this' = replicate (signal_windowLength this) (fround (acWindow this)) \<and>
     frameCount this' = frameCount this + 1 \<and> nFrame this' = nFrame this + 1"
    using b h by (intro computeFrame_hold) (simp_all add: processingWindow_def)
  then show "\<exists>this'. computeFrame xMean this = Inr this' \<and> isSignal this' = 0 \<and>
            currentMetrics this' = currentMetrics this \<and> emitted this' = emitted this"
    by blast
next
  assume "j < 100"
  then have "(200 * k + j) div 100 = 2 * k" by simp
  then show "processingWindow (200 * k + j)" by (simp add: processingWindow_def)
next
  assume "j < 100"
  then have "(200 * k + 100 + j) div 100 = 2 * k + 1" by simp
  then show "\<not> processingWindow (200 * k + 100 + j)" by (simp add: processingWindow_def)
qed

theorem window_schedule_witness:
  "nFrame (PPGMonitor_new \<lparr>opt_windowLength = None, opt_sampleRate = None,
        opt_cardiacBandLow = None, opt_cardiacBandHigh = None, opt_fftSize = None\<rparr>) \<le> DURATION \<and>
   nFrame (projr (computeFrame (Num (1 / 2))
      (PPGMonitor_new \<lparr>opt_windowLength = None, opt_sampleRate = None,
        opt_cardiacBandLow = None, opt_cardiacBandHigh = None, opt_fftSize = None\<rparr>))) = 1 \<and>
   DURATION < nFrame ((PPGMonitor_new \<lparr>opt_windowLength = None, opt_sampleRate = None,
        opt_cardiacBandLow = None, opt_cardiacBandHigh = None, opt_fftSize = None\<rparr>)
      \<lparr>nFrame := 300\<rparr>) \<and>
   signal_windowLength (PPGMonitor_new \<lparr>opt_windowLength = None, opt_sampleRate = None,
        opt_cardiacBandLow = None, opt_cardiacBandHigh = None, opt_fftSize = None\<rparr>) = 300 \<and>
   (300 :: nat) mod 300 = 0 \<and> ((300 :: nat) div 300 div 100) mod 2 = 0 \<and> fft_size_ok 256 \<and>
   (\<exists>this' m. computeFrame (Num (1 / 2))
        ((PPGMonitor_new \<lparr>opt_windowLength = None, opt_sampleRate = None,
           opt_cardiacBandLow = None, opt_cardiacBandHigh = None, opt_fftSize = None\<rparr>)
         \<lparr>nFrame := 300\<rparr>) = Inr this' \<and>
      isSignal this' = 1 \<and> currentMetrics this' = Some m \<and> emitted this' = [m]) \<and>
   (30000 :: nat) mod 300 = 0 \<and> ((30000 :: nat) div 300 div 100) mod 2 = 1 \<and>
   (\<exists>this'. computeFrame (Num (1 / 2))
        ((PPGMonitor_new \<lparr>opt_windowLength = None, opt_sampleRate = None,
           opt_cardiacBandLow = None, opt_cardiacBandHigh = None, opt_fftSize = None\<rparr>)
         \<lparr>nFrame := 30000\<rparr>) = Inr this' \<and>
      isSignal this' = 0 \<and> currentMetrics this' = None \<and> emitted this' = []) \<and>
   (5 :: nat) < 100 \<and> processingWindow 205 \<and> \<not> processingWindow 305"
  using window_schedule
    [of "PPGMonitor_new \<lparr>opt_windowLength = None, opt_sampleRate = None,
           opt_cardiacBandLow = None, opt_cardiacBandHigh = None, opt_fftSize = None\<rparr>"
        "Num (1 / 2)" 5 1]
    window_schedule
    [of "(PPGMonitor_new \<lparr>opt_windowLength = None, opt_sampleRate = None,
           opt_cardiacBandLow = None, opt_cardiacBandHigh = None, opt_fftSize = None\<rparr>)
         \<lparr>nFrame := 300\<rparr>" "Num (1 / 2)" 5 1]
    window_schedule
    [of "(PPGMonitor_new \<lparr>opt_windowLength = None, opt_sampleRate = None,
           opt_cardiacBandLow = None, opt_cardiacBandHigh = None, opt_fftSize = None\<rparr>)
         \<lparr>nFrame := 30000\<rparr>" "Num (1 / 2)" 5 1]
  by (simp add: PPGMonitor_new_def createDefaultOptions_def SignalProcessor_new_def
        or_nat_def DURATION_def fft_size_ok_def Let_def del: fround.simps)

text \<open>
  The claim as stated fails, because it counts windows by ingested samples. A monitor
  with a window length of 1 that has passed the warm-up (frame counter 101, no sample
  ingested yet) ingests its first sample: one sample makes one full window, whose index
  by the claim is 1, in the first run of processed windows. The code computes the
  index 101 and holds: \<open>isSignal\<close> is 0 and nothing is emitted. Likewise the default
  monitor at frame 30000 has ingested 29900 samples after this frame, index 99 by the
  claim, and holds.
\<close>

theorem window_schedule_counterexample:
  "\<not> isl (computeFrame (Num (1 / 2))
     ((PPGMonitor_new \<lparr>opt_windowLength = Some 1, opt_sampleRate = None,
        opt_cardiacBandLow = None, opt_cardiacBandHigh = None, opt_fftSize = None\<rparr>)
      \<lparr>nFrame := 101\<rparr>)) \<and>
   frameCount (projr (computeFrame (Num (1 / 2))
     ((PPGMonitor_new \<lparr>opt_windowLength = Some 1, opt_sampleRate = None,
        opt_cardiacBandLow = None, opt_cardiacBandHigh = None, opt_fftSize = None\<rparr>)
      \<lparr>nFrame := 101\<rparr>))) = 1 \<and>
   ((1 :: nat) div 1 div 100) mod 2 = 0 \<and>
   isSignal (projr (computeFrame (Num (1 / 2))
     ((PPGMonitor_new \<lparr>opt_windowLength = Some 1, opt_sampleRate = None,
        opt_cardiacBandLow = None, opt_cardiacBandHigh = None, opt_fftSize = None\<rparr>)
      \<lparr>nFrame := 101\<rparr>))) = 0 \<and>
   emitted (projr (computeFrame (Num (1 / 2))
     ((PPGMonitor_new \<lparr>opt_windowLength = Some 1, opt_sampleRate = None,
        opt_cardiacBandLow = None, opt_cardiacBandHigh = None, opt_fftSize = None\<rparr>)
      \<lparr>nFrame := 101\<rparr>))) = [] \<and>
   \<not> isl (computeFrame (Num (1 / 2))
     ((PPGMonitor_new \<lparr>opt_windowLength = None, opt_sampleRate = None,
        opt_cardiacBandLow = None, opt_cardiacBandHigh = None, opt_fftSize = None\<rparr>)
      \<lparr>nFrame := 30000, frameCount := 29899\<rparr>)) \<and>
   frameCount (projr (computeFrame (Num (1 / 2))
     ((PPGMonitor_new \<lparr>opt_windowLength = None, opt_sampleRate = None,
        opt_cardiacBandLow = None, opt_cardiacBandHigh = None, opt_fftSize = None\<rparr>)
      \<lparr>nFrame := 30000, frameCount := 29899\<rparr>))) = 29900 \<and>
   ((29900 :: nat) div 300 div 100) mod 2 = 0 \<and>
   isSignal (projr (computeFrame (Num (1 / 2))
     ((PPGMonitor_new \<lparr>opt_windowLength = None, opt_sampleRate = None,
        opt_cardiacBandLow = None, opt_cardiacBandHigh = None, opt_fftSize = None\<rparr>)
      \<lparr>nFrame := 30000, frameCount := 29899\<rparr>))) = 0 \<and>
   emitted (projr (computeFrame (Num (1 / 2))
     ((PPGMonitor_new \<lparr>opt_windowLength = None, opt_sampleRate = None,
        opt_cardiacBandLow = None, opt_cardiacBandHigh = None, opt_fftSize = None\<rparr>)
      \<lparr>nFrame := 30000, frameCount := 29899\<rparr>))) = []"
proof -
  let ?a = "(PPGMonitor_new \<lparr>opt_windowLength = Some 1, opt_sampleRate = None,
        opt_cardiacBandLow = None, opt_cardiacBandHigh = None, opt_fftSize = None\<rparr>)
      \<lparr>nFrame := 101\<rparr>"
  let ?b = "(PPGMonitor_new \<lparr>opt_windowLength = None, opt_sampleRate = None,
        opt_cardiacBandLow = None, opt_cardiacBandHigh = None, opt_fftSize = None\<rparr>)
      \<lparr>nFrame := 30000, frameCount := 29899\<rparr>"
  have "\<exists>this'. computeFrame (Num (1 / 2)) ?a = Inr this' \<and> isSignal this' = 0 \<and>
     currentMetrics this' = currentMetrics ?a \<and> emitted this' = emitted ?a \<and>
     signalProcessor this' = signalProcessor ?a \<and>
     ac this' = replicate (signal_windowLength ?a) (fround (acWindow ?a)) \<and>
     frameCount this' = frameCount ?a + 1 \<and> nFrame this' = nFrame ?a + 1"
    by (rule computeFrame_hold)
       (simp_all add: PPGMonitor_new_def createDefaultOptions_def DURATION_def
          processingWindow_def Let_def del: fround.simps)
  then obtain a' where a: "computeFrame (Num (1 / 2)) ?a = Inr a'" "isSignal a' = 0"
    "emitted a' = emitted ?a" "frameCount a' = frameCount ?a + 1"
    by blast
  have "\<exists>this'. computeFrame (Num (1 / 2)) ?b = Inr this' \<and> isSignal this' = 0 \<and>
     currentMetrics this' = currentMetrics ?b \<and> emitted this' = emitted ?b \<and>
     signalProcessor this' = signalProcessor ?b \<and>
     ac this' = replicate (signal_windowLength ?b) (fround (acWindow ?b)) \<and>
     frameCount this' = frameCount ?b + 1 \<and> nFrame this' = nFrame ?b + 1"
    by (rule computeFrame_hold)
       (simp_all add: PPGMonitor_new_def createDefaultOptions_def DURATION_def
          processingWindow_def Let_def del: fround.simps)
  then obtain b' where b: "computeFrame (Num (1 / 2)) ?b = Inr b'" "isSignal b' = 0"
    "emitted b' = emitted ?b" "frameCount b' = frameCount ?b + 1"
    by blast
  have init: "emitted ?a = []" "frameCount ?a = 0" "emitted ?b = []" "frameCount ?b = 29899"
    by (simp_all add: PPGMonitor_new_def Let_def del: fround.simps)
  show ?thesis
    by (simp add: a b init del: One_nat_def)
qed

end
